theory Spec2Isabelle
  imports Complex_Main "HOL-Library.Char_ord" "HOL-Library.List_Lexorder"
begin

section \<open>Python values\<close>

text \<open>
  The service (\<^verbatim>\<open>src/api/index.py\<close>) receives JSON and hands it to pandas. A cell or a
  comparison operand is a JSON scalar as Python sees it. A double is a rational, an
  infinity or NaN; the sign of a zero is not represented. Strings are lists of 8-bit
  characters, compared by code point.
\<close>

datatype f64 = Fin rat | PInf | NInf | NaN

datatype pyval = PNone | PBool bool | PInt int | PFloat f64 | PStr string

text \<open>A Python \<^verbatim>\<open>dict\<close> with string keys, in insertion order (keys distinct).\<close>

type_synonym pydict = "(string \<times> pyval) list"

section \<open>Exceptions and responses\<close>

text \<open>
  Exceptions of pandas and of the Python runtime. \<open>ValueError_float s\<close> is what
  \<^verbatim>\<open>float(s)\<close> raises on a string it rejects, \<open>OverflowError_float n\<close> what the
  conversion of the integer \<open>n\<close> to a double raises, \<open>TypeError_float\<close> what
  \<^verbatim>\<open>float(None)\<close> raises; \<open>LibraryError m\<close> is any other exception, with its text.
\<close>

datatype lib_error =
    ValueError_float string
  | OverflowError_float int
  | TypeError_float
  | LibraryError string

text \<open>
  What a \<^verbatim>\<open>try\<close> block of a handler can raise: an \<^verbatim>\<open>HTTPException\<close> built by the
  handler itself (status code and literal detail), or an exception of the library.
\<close>

datatype exc = HTTPExc nat string | LibExc lib_error

text \<open>
  The detail of the \<^verbatim>\<open>HTTPException\<close> that leaves a handler: a text written in the
  handler, or \<^verbatim>\<open>str(e)\<close> of a caught exception \<open>e\<close>, which is kept symbolic.
\<close>

datatype detail = Text string | StrOf exc

datatype http_error = HTTPException nat detail

text \<open>The dictionaries the handlers return, one constructor per handler.\<close>

datatype response =
    Created string "nat \<times> nat" "string list"
      \<comment> \<open>message, shape, columns\<close>
  | Dataset "pydict list" "string list" nat "(string \<times> string) list"
      \<comment> \<open>data, columns, total\_rows, dtypes\<close>
  | Deleted string
      \<comment> \<open>message\<close>
  | Filtered "pydict list" nat
      \<comment> \<open>data, total\_rows\<close>
  | Aggregated string string "f64 option"
      \<comment> \<open>column, operation, result\<close>

section \<open>Tables\<close>

datatype dtype = Int64 | UInt64 | Float64 | Bool | Object

record series =
  dtype :: dtype
  cells :: "pyval list"

text \<open>A DataFrame: the length of its index and its columns, in order.\<close>

record dataframe =
  nrows :: nat
  cols :: "(string \<times> series) list"

type_synonym data_store = "string \<rightharpoonup> dataframe"

definition columns_of :: "dataframe \<Rightarrow> string list" where
  "columns_of df = map fst (cols df)"

definition shape :: "dataframe \<Rightarrow> nat \<times> nat" where
  "shape df = (nrows df, length (cols df))"

fun dtype_name :: "dtype \<Rightarrow> string" where
  "dtype_name Int64 = ''int64''"
| "dtype_name UInt64 = ''uint64''"
| "dtype_name Float64 = ''float64''"
| "dtype_name Bool = ''bool''"
| "dtype_name Object = ''object''"

definition dtypes_of :: "dataframe \<Rightarrow> (string \<times> string) list" where
  "dtypes_of df = map (\<lambda>(c, s). (c, dtype_name (dtype s))) (cols df)"

text \<open>\<^verbatim>\<open>pd.notna\<close> on a scalar: \<^verbatim>\<open>None\<close> and NaN are missing.\<close>

fun notna :: "pyval \<Rightarrow> bool" where
  "notna PNone = False"
| "notna (PFloat NaN) = False"
| "notna v = True"

text \<open>
  \<^verbatim>\<open>df.to_dict(orient="records")\<close>: one dictionary per row, keyed by column name.
  The rows come from \<^verbatim>\<open>zip(*arrays)\<close> over the columns, so a table without columns
  gives no record at all, however many rows it has.
\<close>

definition to_dict_records :: "dataframe \<Rightarrow> pydict list" where
  "to_dict_records df =
     (if cols df = [] then []
      else map (\<lambda>i. map (\<lambda>(c, s). (c, cells s ! i)) (cols df)) [0..<nrows df])"

text \<open>
  \<^verbatim>\<open>df.head(n)\<close> is \<^verbatim>\<open>df.iloc[:n]\<close>: the first \<open>n\<close> rows, and for a negative \<open>n\<close>
  all rows but the last \<open>-n\<close>.
\<close>

definition slice_stop :: "nat \<Rightarrow> int \<Rightarrow> nat" where
  "slice_stop len n = (if n < 0 then nat (int len + n) else min len (nat n))"

definition take_rows :: "nat \<Rightarrow> dataframe \<Rightarrow> dataframe" where
  "take_rows k df =
     \<lparr>nrows = min k (nrows df),
      cols = map (\<lambda>(c, s). (c, s\<lparr>cells := take k (cells s)\<rparr>)) (cols df)\<rparr>"

definition head :: "dataframe \<Rightarrow> int \<Rightarrow> dataframe" where
  "head df n = take_rows (slice_stop (nrows df) n) df"

text \<open>\<^verbatim>\<open>df[mask]\<close> with a boolean mask: the rows where the mask is true.\<close>

definition select :: "bool list \<Rightarrow> 'a list \<Rightarrow> 'a list" where
  "select keep xs = map snd (filter fst (zip keep xs))"

definition boolean_index :: "dataframe \<Rightarrow> bool list \<Rightarrow> dataframe" where
  "boolean_index df keep =
     \<lparr>nrows = length (select keep [0..<nrows df]),
      cols = map (\<lambda>(c, s). (c, s\<lparr>cells := select keep (cells s)\<rparr>)) (cols df)\<rparr>"

section \<open>The library\<close>

text \<open>
  The operations of pandas and of the Python runtime that this development does not
  interpret are the fields of a record: every theorem holds for all of them.
  \<^item> \<open>DataFrame_raises\<close>: the exception, if any, of \<^verbatim>\<open>pd.DataFrame(rows)\<close>;
  \<^item> \<open>Series_compare\<close>: \<^verbatim>\<open>series == v\<close>, \<^verbatim>\<open>series > v\<close>, \<^verbatim>\<open>series < v\<close>;
  \<^item> \<open>re_compile_raises\<close>, \<open>re_search\<close>: \<^verbatim>\<open>re.compile(pat)\<close> and
    \<^verbatim>\<open>pat.search(s) is not None\<close>, for patterns with metacharacters other than the dot;
  \<^item> \<open>float_str\<close>: \<^verbatim>\<open>str\<close> of a finite double;
  \<^item> \<open>float_of_str\<close>: \<^verbatim>\<open>float(s)\<close> on a string that has a digit or a letter n;
  \<^item> \<open>Series_reduce\<close>: the reductions outside the cases interpreted below.
\<close>

datatype cmp = Eq | Gt | Lt

datatype agg = Agg_sum | Agg_mean | Agg_median | Agg_count | Agg_min | Agg_max

record library =
  DataFrame_raises :: "pydict list \<Rightarrow> lib_error option"
  Series_compare :: "cmp \<Rightarrow> series \<Rightarrow> pyval \<Rightarrow> lib_error + bool list"
  re_compile_raises :: "string \<Rightarrow> lib_error option"
  re_search :: "string \<Rightarrow> string \<Rightarrow> bool"
  float_str :: "rat \<Rightarrow> string"
  float_of_str :: "string \<Rightarrow> lib_error + f64"
  Series_reduce :: "agg \<Rightarrow> series \<Rightarrow> lib_error + pyval"

section \<open>Integers to doubles\<close>

fun bit_length :: "nat \<Rightarrow> nat" where
  "bit_length n = (if n = 0 then 0 else Suc (bit_length (n div 2)))"

declare bit_length.simps [simp del]

text \<open>
  \<^verbatim>\<open>float(n)\<close> for a Python integer: the nearest double, ties to even; OverflowError
  when that is beyond the largest double.
\<close>

definition float_of_int :: "int \<Rightarrow> lib_error + f64" where
  "float_of_int n =
     (let a = nat \<bar>n\<bar>;
          k = bit_length a - 53;
          q = a div 2 ^ k;
          r = a mod 2 ^ k;
          q' = (if 2 * r < 2 ^ k then q else if 2 ^ k < 2 * r then q + 1 else q + q mod 2);
          v = q' * 2 ^ k
      in if 2 ^ 1024 \<le> v then Inl (OverflowError_float n)
         else Inr (Fin (of_int (sgn n * int v))))"

section \<open>Building a table from row records\<close>

text \<open>
  \<^verbatim>\<open>pd.DataFrame(rows)\<close> on a list of dictionaries: the columns are the keys in order
  of first appearance, a missing key is NaN, and each column is converted by
  \<^verbatim>\<open>lib.maybe_convert_objects\<close>, whose scan of the cells is \<open>scan\<close>.
\<close>

fun unique_keys :: "string list \<Rightarrow> string list \<Rightarrow> string list" where
  "unique_keys acc [] = acc"
| "unique_keys acc (k # ks) = unique_keys (if k \<in> set acc then acc else acc @ [k]) ks"

definition lookup :: "pydict \<Rightarrow> string \<Rightarrow> pyval" where
  "lookup row c = (case map_of row c of None \<Rightarrow> PFloat NaN | Some v \<Rightarrow> v)"

record seen =
  seen_null :: bool
  seen_nan :: bool
  seen_bool :: bool
  seen_int :: bool
  seen_uint :: bool
  seen_sint :: bool
  seen_float :: bool
  seen_object :: bool

definition seen0 :: seen where
  "seen0 = \<lparr>seen_null = False, seen_nan = False, seen_bool = False, seen_int = False,
            seen_uint = False, seen_sint = False, seen_float = False, seen_object = False\<rparr>"

fun saw :: "seen \<Rightarrow> pyval \<Rightarrow> lib_error + seen" where
  "saw s PNone = Inr (s\<lparr>seen_null := True\<rparr>)"
| "saw s (PFloat NaN) = Inr (s\<lparr>seen_nan := True\<rparr>)"
| "saw s (PFloat f) = Inr (s\<lparr>seen_float := True\<rparr>)"
| "saw s (PBool b) = Inr (s\<lparr>seen_bool := True\<rparr>)"
| "saw s (PInt v) =
     (case float_of_int v of
        Inl e \<Rightarrow> Inl e
      | Inr f \<Rightarrow>
          if seen_null s then Inr (s\<lparr>seen_int := True\<rparr>)
          else
            (let s' = s\<lparr>seen_int := True,
                        seen_sint := seen_sint s \<or> (- (2 ^ 63) \<le> v \<and> v < 0),
                        seen_uint := seen_uint s \<or> (2 ^ 63 - 1 < v \<and> v \<le> 2 ^ 64 - 1)\<rparr>
             in if (seen_uint s' \<and> seen_sint s') \<or> 2 ^ 64 - 1 < v \<or> v < - (2 ^ 63)
                then Inr (s'\<lparr>seen_object := True\<rparr>) else Inr s'))"
| "saw s (PStr x) = Inr (s\<lparr>seen_object := True\<rparr>)"

fun scan :: "seen \<Rightarrow> pyval list \<Rightarrow> lib_error + seen" where
  "scan s [] = Inr s"
| "scan s (v # vs) =
     (case saw s v of
        Inl e \<Rightarrow> Inl e
      | Inr s' \<Rightarrow> if seen_object s' then Inr s' else scan s' vs)"

fun to_double :: "pyval \<Rightarrow> pyval" where
  "to_double (PInt n) = (case float_of_int n of Inr f \<Rightarrow> PFloat f | Inl e \<Rightarrow> PFloat NaN)"
| "to_double PNone = PFloat NaN"
| "to_double v = v"

definition maybe_convert_objects :: "pyval list \<Rightarrow> lib_error + series" where
  "maybe_convert_objects vs =
     (case scan seen0 vs of
        Inl e \<Rightarrow> Inl e
      | Inr s \<Rightarrow> Inr
         (if seen_object s then \<lparr>dtype = Object, cells = vs\<rparr>
          else if seen_bool s then
            (if seen_null s \<or> seen_nan s \<or> seen_int s \<or> seen_float s
             then \<lparr>dtype = Object, cells = vs\<rparr> else \<lparr>dtype = Bool, cells = vs\<rparr>)
          else if seen_null s \<or> seen_nan s then
            (if seen_float s \<or> seen_int s \<or> seen_nan s
             then \<lparr>dtype = Float64, cells = map to_double vs\<rparr>
             else \<lparr>dtype = Object, cells = vs\<rparr>)
          else if seen_float s then \<lparr>dtype = Float64, cells = map to_double vs\<rparr>
          else if seen_int s then
            (if seen_uint s then \<lparr>dtype = UInt64, cells = vs\<rparr>
             else \<lparr>dtype = Int64, cells = vs\<rparr>)
          else \<lparr>dtype = Object, cells = vs\<rparr>))"

fun collect :: "('e + 'a) list \<Rightarrow> 'e + 'a list" where
  "collect [] = Inr []"
| "collect (x # xs) =
     (case x of
        Inl e \<Rightarrow> Inl e
      | Inr a \<Rightarrow> (case collect xs of Inl e \<Rightarrow> Inl e | Inr as \<Rightarrow> Inr (a # as)))"

definition from_records :: "pydict list \<Rightarrow> lib_error + dataframe" where
  "from_records rows =
     (let columns = unique_keys [] (concat (map (map fst) rows))
      in case collect (map (\<lambda>c. maybe_convert_objects (map (\<lambda>row. lookup row c) rows)) columns) of
           Inl e \<Rightarrow> Inl e
         | Inr ss \<Rightarrow> Inr \<lparr>nrows = length rows, cols = zip columns ss\<rparr>)"

definition pd_DataFrame :: "library \<Rightarrow> pydict list \<Rightarrow> lib_error + dataframe" where
  "pd_DataFrame L rows =
     (case DataFrame_raises L rows of Some e \<Rightarrow> Inl e | None \<Rightarrow> from_records rows)"

section \<open>The handlers: datasets\<close>

record DataUpload =
  name :: string
  data :: "pydict list"

definition quoted :: "string \<Rightarrow> string" where
  "quoted s = [CHR 0x27] @ s @ [CHR 0x27]"

text \<open>
  \<^verbatim>\<open>create_dataset\<close>: the table is built, then bound to the name; any exception of the
  \<^verbatim>\<open>try\<close> block is answered with status 400.
\<close>

definition create_dataset ::
  "library \<Rightarrow> data_store \<Rightarrow> DataUpload \<Rightarrow> (http_error + response) \<times> data_store" where
  "create_dataset L data_store data_upload =
     (case pd_DataFrame L (data data_upload) of
        Inl e \<Rightarrow> (Inl (HTTPException 400 (StrOf (LibExc e))), data_store)
      | Inr df \<Rightarrow>
          (Inr (Created (''Dataset '' @ quoted (name data_upload) @ '' created successfully'')
                  (shape df) (columns_of df)),
           data_store(name data_upload \<mapsto> df)))"

text \<open>
  \<^verbatim>\<open>get_dataset(dataset_name, limit)\<close>, \<open>limit\<close> a Python \<^verbatim>\<open>Optional[int]\<close>:
  \<^verbatim>\<open>df.head(limit) if limit else df\<close>, and \<^verbatim>\<open>None\<close> and \<open>0\<close> are falsy.
\<close>

definition get_dataset ::
  "data_store \<Rightarrow> string \<Rightarrow> int option \<Rightarrow> (http_error + response) \<times> data_store" where
  "get_dataset data_store dataset_name limit =
     (case data_store dataset_name of
        None \<Rightarrow> (Inl (HTTPException 404 (Text ''Dataset not found'')), data_store)
      | Some df \<Rightarrow>
          (let limited_df =
                 (case limit of
                    None \<Rightarrow> df
                  | Some n \<Rightarrow> if n \<noteq> 0 then head df n else df)
           in (Inr (Dataset (to_dict_records limited_df) (columns_of df) (nrows df) (dtypes_of df)),
               data_store)))"

text \<open>
  The route \<^verbatim>\<open>GET /api/datasets/{dataset_name}\<close>: the signature declares
  \<^verbatim>\<open>limit: Optional[int] = 100\<close>, so a request without the query parameter calls the
  handler with 100.
\<close>

definition get_dataset_route ::
  "data_store \<Rightarrow> string \<Rightarrow> int option \<Rightarrow> (http_error + response) \<times> data_store" where
  "get_dataset_route data_store dataset_name query_limit =
     get_dataset data_store dataset_name
       (case query_limit of None \<Rightarrow> Some 100 | Some n \<Rightarrow> Some n)"

definition delete_dataset ::
  "data_store \<Rightarrow> string \<Rightarrow> (http_error + response) \<times> data_store" where
  "delete_dataset data_store dataset_name =
     (case data_store dataset_name of
        None \<Rightarrow> (Inl (HTTPException 404 (Text ''Dataset not found'')), data_store)
      | Some df \<Rightarrow>
          (Inr (Deleted (''Dataset '' @ quoted dataset_name @ '' deleted successfully'')),
           data_store(dataset_name := None)))"

section \<open>Strings\<close>

text \<open>\<^verbatim>\<open>str\<close> of a Python scalar; \<^verbatim>\<open>astype(str)\<close> applies it to every cell.\<close>

fun digits :: "nat \<Rightarrow> string" where
  "digits n = (if n < 10 then [char_of (48 + n)] else digits (n div 10) @ [char_of (48 + n mod 10)])"

declare digits.simps [simp del]

definition str_int :: "int \<Rightarrow> string" where
  "str_int n = (if n < 0 then CHR ''-'' # digits (nat (- n)) else digits (nat n))"

fun py_str :: "library \<Rightarrow> pyval \<Rightarrow> string" where
  "py_str L PNone = ''None''"
| "py_str L (PBool b) = (if b then ''True'' else ''False'')"
| "py_str L (PInt n) = str_int n"
| "py_str L (PFloat NaN) = ''nan''"
| "py_str L (PFloat PInf) = ''inf''"
| "py_str L (PFloat NInf) = ''-inf''"
| "py_str L (PFloat (Fin q)) = float_str L q"
| "py_str L (PStr s) = s"

definition astype_str :: "library \<Rightarrow> series \<Rightarrow> string list" where
  "astype_str L s = map (py_str L) (cells s)"

text \<open>
  \<^verbatim>\<open>Series.str.contains(pat, na=False)\<close> keeps the default \<^verbatim>\<open>regex=True\<close>: the pattern
  is compiled by \<^verbatim>\<open>re\<close> and searched in every string. A pattern without the
  metacharacters below is a sequence of literal characters and dots, and a dot matches
  any character but a newline; \<open>search\<close> is \<^verbatim>\<open>re.search\<close> on such a pattern.
\<close>

definition metachars :: "char list" where
  "metachars = [CHR 0x5C, CHR ''^'', CHR ''$'', CHR ''*'', CHR ''+'', CHR ''?'', CHR ''{'',
                CHR ''}'', CHR ''['', CHR '']'', CHR ''('', CHR '')'', CHR ''|'']"

definition simple_pattern :: "string \<Rightarrow> bool" where
  "simple_pattern pat = list_all (\<lambda>c. c \<notin> set metachars) pat"

definition atom_matches :: "char \<Rightarrow> char \<Rightarrow> bool" where
  "atom_matches a c = (if a = CHR ''.'' then c \<noteq> CHR 0x0A else a = c)"

fun match_here :: "string \<Rightarrow> string \<Rightarrow> bool" where
  "match_here [] s = True"
| "match_here (a # pat) [] = False"
| "match_here (a # pat) (c # s) = (atom_matches a c \<and> match_here pat s)"

fun search :: "string \<Rightarrow> string \<Rightarrow> bool" where
  "search pat [] = match_here pat []"
| "search pat (c # s) = (match_here pat (c # s) \<or> search pat s)"

definition str_contains :: "library \<Rightarrow> string list \<Rightarrow> string \<Rightarrow> lib_error + bool list" where
  "str_contains L strs pat =
     (if simple_pattern pat then Inr (map (search pat) strs)
      else case re_compile_raises L pat of
             Some e \<Rightarrow> Inl e
           | None \<Rightarrow> Inr (map (re_search L pat) strs))"

section \<open>Reductions\<close>

text \<open>
  The reductions of a column, interpreted where it is plain what pandas does: \<open>count\<close>
  counts the cells that are not missing; the sum of an \<open>int64\<close> column is the 64-bit
  sum, which wraps; \<open>min\<close> and \<open>max\<close> of an \<open>object\<close> column of strings compare
  them as Python does; on a \<open>float64\<close> column with no value (every cell NaN) the sum is
  \<open>0.0\<close> and the other reductions are NaN. Everything else is the library's.
\<close>

definition wrap_int64 :: "int \<Rightarrow> int" where
  "wrap_int64 n = (n + 2 ^ 63) mod 2 ^ 64 - 2 ^ 63"

fun is_int64 :: "pyval \<Rightarrow> bool" where
  "is_int64 (PInt n) = (- (2 ^ 63) \<le> n \<and> n < 2 ^ 63)"
| "is_int64 v = False"

fun the_int :: "pyval \<Rightarrow> int" where
  "the_int (PInt n) = n"
| "the_int v = 0"

fun is_str :: "pyval \<Rightarrow> bool" where
  "is_str (PStr s) = True"
| "is_str v = False"

fun the_str :: "pyval \<Rightarrow> string" where
  "the_str (PStr s) = s"
| "the_str v = []"

definition least :: "string list \<Rightarrow> string" where
  "least xs = fold min (tl xs) (hd xs)"

definition greatest :: "string list \<Rightarrow> string" where
  "greatest xs = fold max (tl xs) (hd xs)"

definition Series_agg :: "library \<Rightarrow> agg \<Rightarrow> series \<Rightarrow> lib_error + pyval" where
  "Series_agg L a s =
     (if a = Agg_count then Inr (PInt (int (length (filter notna (cells s)))))
      else if a = Agg_sum \<and> dtype s = Int64 \<and> list_all is_int64 (cells s)
        then Inr (PInt (wrap_int64 (sum_list (map the_int (cells s)))))
      else if a = Agg_min \<and> dtype s = Object \<and> cells s \<noteq> [] \<and> list_all is_str (cells s)
        then Inr (PStr (least (map the_str (cells s))))
      else if a = Agg_max \<and> dtype s = Object \<and> cells s \<noteq> [] \<and> list_all is_str (cells s)
        then Inr (PStr (greatest (map the_str (cells s))))
      else if dtype s = Float64 \<and> list_all (\<lambda>v. v = PFloat NaN) (cells s)
        then Inr (PFloat (if a = Agg_sum then Fin 0 else NaN))
      else Series_reduce L a s)"

text \<open>
  \<^verbatim>\<open>float(result)\<close>. A string that \<^verbatim>\<open>float\<close> accepts has a decimal digit or spells
  \<^verbatim>\<open>inf\<close>, \<^verbatim>\<open>infinity\<close> or \<^verbatim>\<open>nan\<close>: on a string with no digit and no letter n it
  raises ValueError.
\<close>

fun py_float :: "library \<Rightarrow> pyval \<Rightarrow> lib_error + f64" where
  "py_float L PNone = Inl TypeError_float"
| "py_float L (PBool b) = Inr (Fin (if b then 1 else 0))"
| "py_float L (PInt n) = float_of_int n"
| "py_float L (PFloat f) = Inr f"
| "py_float L (PStr s) =
     (if list_ex (\<lambda>c. c \<in> set ''0123456789nN'') s then float_of_str L s
      else Inl (ValueError_float s))"

section \<open>The handlers: filter and aggregate\<close>

record AggregateRequest =
  dataset_name :: string
  column :: string
  operation :: string

record FilterRequest = AggregateRequest +
  cmp_value :: pyval

definition raised :: "lib_error + 'a \<Rightarrow> exc + 'a" where
  "raised r = (case r of Inl e \<Rightarrow> Inl (LibExc e) | Inr x \<Rightarrow> Inr x)"

text \<open>The \<^verbatim>\<open>if\<close>/\<^verbatim>\<open>elif\<close> chain of \<^verbatim>\<open>filter_data\<close>: the mask of the rows to keep.\<close>

definition filter_mask :: "library \<Rightarrow> series \<Rightarrow> string \<Rightarrow> pyval \<Rightarrow> exc + bool list" where
  "filter_mask L s op v =
     (if op = ''eq'' then raised (Series_compare L Eq s v)
      else if op = ''gt'' then raised (Series_compare L Gt s v)
      else if op = ''lt'' then raised (Series_compare L Lt s v)
      else if op = ''contains'' then raised (str_contains L (astype_str L s) (py_str L v))
      else Inl (HTTPExc 400 ''Invalid operation''))"

definition filter_data ::
  "library \<Rightarrow> data_store \<Rightarrow> FilterRequest \<Rightarrow> (http_error + response) \<times> data_store" where
  "filter_data L data_store request =
     (case data_store (dataset_name request) of
        None \<Rightarrow> (Inl (HTTPException 404 (Text ''Dataset not found'')), data_store)
      | Some df \<Rightarrow>
          (case map_of (cols df) (column request) of
             None \<Rightarrow>
               (Inl (HTTPException 400
                       (Text (''Column '' @ quoted (column request) @ '' not found''))),
                data_store)
           | Some s \<Rightarrow>
               (case filter_mask L s (operation request) (cmp_value request) of
                  Inl e \<Rightarrow> (Inl (HTTPException 400 (StrOf e)), data_store)
                | Inr keep \<Rightarrow>
                    (let filtered_df = boolean_index df keep
                     in (Inr (Filtered (to_dict_records filtered_df) (nrows filtered_df)),
                         data_store)))))"

text \<open>The \<^verbatim>\<open>if\<close>/\<^verbatim>\<open>elif\<close> chain of \<^verbatim>\<open>aggregate_data\<close>.\<close>

definition reduction :: "library \<Rightarrow> series \<Rightarrow> string \<Rightarrow> exc + pyval" where
  "reduction L s op =
     (if op = ''sum'' then raised (Series_agg L Agg_sum s)
      else if op = ''mean'' then raised (Series_agg L Agg_mean s)
      else if op = ''median'' then raised (Series_agg L Agg_median s)
      else if op = ''count'' then raised (Series_agg L Agg_count s)
      else if op = ''min'' then raised (Series_agg L Agg_min s)
      else if op = ''max'' then raised (Series_agg L Agg_max s)
      else Inl (HTTPExc 400 ''Invalid operation''))"

definition aggregate_data ::
  "library \<Rightarrow> data_store \<Rightarrow> AggregateRequest \<Rightarrow> (http_error + response) \<times> data_store" where
  "aggregate_data L data_store request =
     (case data_store (dataset_name request) of
        None \<Rightarrow> (Inl (HTTPException 404 (Text ''Dataset not found'')), data_store)
      | Some df \<Rightarrow>
          (case map_of (cols df) (column request) of
             None \<Rightarrow>
               (Inl (HTTPException 400
                       (Text (''Column '' @ quoted (column request) @ '' not found''))),
                data_store)
           | Some s \<Rightarrow>
               (case reduction L s (operation request) of
                  Inl e \<Rightarrow> (Inl (HTTPException 400 (StrOf e)), data_store)
                | Inr result \<Rightarrow>
                    if notna result then
                      (case py_float L result of
                         Inl e \<Rightarrow> (Inl (HTTPException 400 (StrOf (LibExc e))), data_store)
                       | Inr x \<Rightarrow>
                           (Inr (Aggregated (column request) (operation request) (Some x)),
                            data_store))
                    else
                      (Inr (Aggregated (column request) (operation request) None),
                       data_store))))"

section \<open>The seeded dataset\<close>

definition sample_row :: "int \<Rightarrow> string \<Rightarrow> int \<Rightarrow> string \<Rightarrow> int \<Rightarrow> pydict" where
  "sample_row i n a c s =
     [(''id'', PInt i), (''name'', PStr n), (''age'', PInt a), (''city'', PStr c),
      (''salary'', PInt s)]"

definition sample_data :: "pydict list" where
  "sample_data =
     [sample_row 1 ''Alice'' 30 ''New York'' 75000,
      sample_row 2 ''Bob'' 25 ''San Francisco'' 85000,
      sample_row 3 ''Charlie'' 35 ''Los Angeles'' 65000,
      sample_row 4 ''Diana'' 28 ''New York'' 90000,
      sample_row 5 ''Eve'' 32 ''Chicago'' 72000]"

text \<open>
  The store when the module has been imported: \<^verbatim>\<open>data_store["sample"] =
  pd.DataFrame(sample_data)\<close>; an exception there ends the import.
\<close>

definition startup :: "library \<Rightarrow> lib_error + data_store" where
  "startup L =
     (case pd_DataFrame L sample_data of
        Inl e \<Rightarrow> Inl e
      | Inr df \<Rightarrow> Inr (Map.empty(''sample'' \<mapsto> df)))"

text \<open>
  A library for the examples: the constructor raises nothing of its own, and every
  operation left to the library raises. No example below reaches one of the latter.
\<close>

definition example_library :: library where
  "example_library =
     \<lparr>DataFrame_raises = (\<lambda>rows. None),
      Series_compare = (\<lambda>c s v. Inl (LibraryError [])),
      re_compile_raises = (\<lambda>pat. Some (LibraryError [])),
      re_search = (\<lambda>pat s. False),
      float_str = (\<lambda>q. []),
      float_of_str = (\<lambda>s. Inl (ValueError_float s)),
      Series_reduce = (\<lambda>a s. Inl (LibraryError []))\<rparr>"

section \<open>Notions for the statements\<close>

text \<open>
  The containment the specification speaks of: the pattern occurs in the string as it
  stands, character by character.
\<close>

fun starts_with :: "string \<Rightarrow> string \<Rightarrow> bool" where
  "starts_with [] s = True"
| "starts_with (a # pat) [] = False"
| "starts_with (a # pat) (c # s) = (a = c \<and> starts_with pat s)"

fun substring :: "string \<Rightarrow> string \<Rightarrow> bool" where
  "substring pat [] = starts_with pat []"
| "substring pat (c # s) = (starts_with pat (c # s) \<or> substring pat s)"

text \<open>Every column of a table has one cell per row.\<close>

definition wf_frame :: "dataframe \<Rightarrow> bool" where
  "wf_frame df = list_all (\<lambda>(c, s). length (cells s) = nrows df) (cols df)"

text \<open>A table of two names, for the examples.\<close>

definition two_names :: dataframe where
  "two_names =
     \<lparr>nrows = 2,
      cols = [(''name'', \<lparr>dtype = Object, cells = [PStr ''Alice'', PStr ''Bob'']\<rparr>)]\<rparr>"

text \<open>
  Python's \<^verbatim>\<open>==\<close> on scalars: booleans, integers and finite doubles compare by their
  numeric value, NaN equals nothing, and a string or \<^verbatim>\<open>None\<close> equals only itself. Two
  dictionaries are equal when they have the same keys with equal values.
\<close>

fun number :: "pyval \<Rightarrow> rat option" where
  "number (PBool b) = Some (if b then 1 else 0)"
| "number (PInt n) = Some (of_int n)"
| "number (PFloat (Fin q)) = Some q"
| "number v = None"

fun py_eq :: "pyval \<Rightarrow> pyval \<Rightarrow> bool" where
  "py_eq PNone PNone = True"
| "py_eq (PStr s) (PStr t) = (s = t)"
| "py_eq (PFloat PInf) (PFloat PInf) = True"
| "py_eq (PFloat NInf) (PFloat NInf) = True"
| "py_eq v w = (case number v of None \<Rightarrow> False | Some a \<Rightarrow> number w = Some a)"

definition dict_eq :: "pydict \<Rightarrow> pydict \<Rightarrow> bool" where
  "dict_eq d e =
     (list_all (\<lambda>(k, v). case map_of e k of None \<Rightarrow> False | Some w \<Rightarrow> py_eq v w) d
      \<and> list_all (\<lambda>(k, w). map_of d k \<noteq> None) e)"

text \<open>
  The columns that come back as they were uploaded. No cell is NaN. A column with a
  string or a boolean is kept as it is. In a column without them, a null occurs only
  when every cell is null, and when a float occurs every integer converts to a double
  without rounding.
\<close>

fun is_bool :: "pyval \<Rightarrow> bool" where
  "is_bool (PBool b) = True"
| "is_bool v = False"

fun is_float :: "pyval \<Rightarrow> bool" where
  "is_float (PFloat f) = True"
| "is_float v = False"

fun exact_int :: "pyval \<Rightarrow> bool" where
  "exact_int (PInt n) = (float_of_int n = Inr (Fin (of_int n)))"
| "exact_int v = True"

definition safe_column :: "pyval list \<Rightarrow> bool" where
  "safe_column vs =
     (PFloat NaN \<notin> set vs
      \<and> (list_ex is_str vs \<or> list_ex is_bool vs
           \<or> ((PNone \<in> set vs \<longrightarrow> list_all (\<lambda>v. v = PNone) vs)
              \<and> (list_ex is_float vs \<longrightarrow> list_all exact_int vs))))"

text \<open>
  Values for the examples: a table of 150 rows, a table of one cell, and an integer
  beyond every double.
\<close>

definition many_rows :: dataframe where
  "many_rows =
     \<lparr>nrows = 150,
      cols = [(''id'', \<lparr>dtype = Int64, cells = map (\<lambda>i. PInt (int i)) [0..<150]\<rparr>)]\<rparr>"

definition one_cell :: dataframe where
  "one_cell = \<lparr>nrows = 1, cols = [(''a'', \<lparr>dtype = Int64, cells = [PInt 1]\<rparr>)]\<rparr>"

definition too_large :: int where
  "too_large = 2 ^ 1024"

section \<open>Facts about tables\<close>

lemma length_to_dict_records:
  "length (to_dict_records df) = (if cols df = [] then 0 else nrows df)"
  by (simp add: to_dict_records_def)

lemma to_dict_records_take_rows:
  "to_dict_records (take_rows k df) = take k (to_dict_records df)"
proof -
  have "map (\<lambda>i. map (\<lambda>(c, s). (c, cells s ! i))
               (map (\<lambda>(c, s). (c, s\<lparr>cells := take k (cells s)\<rparr>)) (cols df)))
          [0..<min k (nrows df)]
      = map (\<lambda>i. map (\<lambda>(c, s). (c, cells s ! i)) (cols df)) [0..<min k (nrows df)]"
    by (rule map_cong) (auto simp: split_def)
  moreover have "take k [0..<nrows df] = [0..<min k (nrows df)]"
    by (simp add: min_def)
  ultimately show ?thesis
    by (cases "cols df = []") (simp_all add: to_dict_records_def take_rows_def take_map)
qed

lemma to_dict_records_head:
  "0 \<le> n \<Longrightarrow> to_dict_records (head df n) = take (nat n) (to_dict_records df)"
  by (simp add: head_def slice_stop_def to_dict_records_take_rows min_def
      length_to_dict_records)

lemma to_dict_records_head_all:
  "to_dict_records (head df (int (nrows df))) = to_dict_records df"
  by (simp add: to_dict_records_head length_to_dict_records)

lemma bit_length_le: "a < 2 ^ k \<Longrightarrow> bit_length a \<le> k"
proof (induction k arbitrary: a)
  case 0
  then show ?case by (simp add: bit_length.simps)
next
  case (Suc k)
  have "a div 2 < 2 ^ k" using Suc.prems by simp
  then have "bit_length (a div 2) \<le> k" by (rule Suc.IH)
  then show ?case by (subst bit_length.simps) simp
qed

lemma float_of_int_exact:
  assumes "\<bar>n\<bar> < 2 ^ 53"
  shows "float_of_int n = Inr (Fin (of_int n))"
proof -
  have a: "nat \<bar>n\<bar> < 2 ^ 53" using assms by (simp add: nat_less_iff)
  then have k: "bit_length (nat \<bar>n\<bar>) - 53 = 0" using bit_length_le by fastforce
  have "nat \<bar>n\<bar> < 2 ^ 1024"
    by (rule less_trans [OF a]) simp
  moreover have "sgn n * \<bar>n\<bar> = n" by (simp add: mult_sgn_abs)
  ultimately show ?thesis
    by (simp add: float_of_int_def k Let_def not_le)
qed

lemma bit_length_pow2: "bit_length (2 ^ k) = Suc k"
proof (induction k)
  case 0
  show ?case by (simp add: bit_length.simps [of "Suc 0"] bit_length.simps [of 0])
next
  case (Suc k)
  show ?case by (subst bit_length.simps) (simp add: Suc)
qed

lemma float_of_int_overflow:
  assumes "1024 \<le> k"
  shows "float_of_int (2 ^ k) = Inl (OverflowError_float (2 ^ k))"
proof -
  have a: "nat \<bar>2 ^ k :: int\<bar> = 2 ^ k"
    by (simp add: nat_power_eq)
  have k: "bit_length (2 ^ k) - 53 = k - 52"
    by (simp add: bit_length_pow2)
  have q: "(2::nat) ^ k div 2 ^ (k - 52) = 2 ^ 52"
    using assms by (simp add: power_diff [symmetric])
  have r: "(2::nat) ^ k mod 2 ^ (k - 52) = 0"
    by (simp add: le_imp_power_dvd)
  have "(2::nat) ^ 52 * 2 ^ (k - 52) = 2 ^ (52 + (k - 52))"
    by (simp only: power_add)
  then have v: "(2::nat) ^ 52 * 2 ^ (k - 52) = 2 ^ k"
    using assms by simp
  have big: "(2::nat) ^ 1024 \<le> 2 ^ k"
    using assms by (simp only: power_increasing_iff one_less_numeral_iff semiring_norm)
  show ?thesis
    unfolding float_of_int_def a Let_def k q r using big by (simp only: v if_True mult_zero_right zero_less_power pos2)
qed

lemma float_of_int_too_large: "float_of_int too_large = Inl (OverflowError_float too_large)"
  unfolding too_large_def by (rule float_of_int_overflow) simp

lemma column_lookup:
  "c \<in> set (columns_of df) \<Longrightarrow> \<exists>s. map_of (cols df) c = Some s"
  by (cases "map_of (cols df) c") (auto simp: columns_of_def map_of_eq_None_iff)

lemma from_records_too_large:
  "from_records [[(''a'', PInt too_large)]] = Inl (OverflowError_float too_large)"
  by (simp add: from_records_def lookup_def maybe_convert_objects_def seen0_def float_of_int_too_large)

lemma from_records_one:
  "from_records [[(''a'', PInt 1)]] =
     Inr \<lparr>nrows = 1, cols = [(''a'', \<lparr>dtype = Int64, cells = [PInt 1]\<rparr>)]\<rparr>"
  by (simp add: from_records_def lookup_def maybe_convert_objects_def seen0_def float_of_int_exact)

lemma from_records_sample:
  "from_records sample_data =
     Inr \<lparr>nrows = 5,
          cols =
            [(''id'', \<lparr>dtype = Int64, cells = [PInt 1, PInt 2, PInt 3, PInt 4, PInt 5]\<rparr>),
             (''name'', \<lparr>dtype = Object,
                cells = [PStr ''Alice'', PStr ''Bob'', PStr ''Charlie'', PStr ''Diana'',
                         PStr ''Eve'']\<rparr>),
             (''age'', \<lparr>dtype = Int64,
                cells = [PInt 30, PInt 25, PInt 35, PInt 28, PInt 32]\<rparr>),
             (''city'', \<lparr>dtype = Object,
                cells = [PStr ''New York'', PStr ''San Francisco'', PStr ''Los Angeles'',
                         PStr ''New York'', PStr ''Chicago'']\<rparr>),
             (''salary'', \<lparr>dtype = Int64,
                cells = [PInt 75000, PInt 85000, PInt 65000, PInt 90000, PInt 72000]\<rparr>)]\<rparr>"
  by (simp add: from_records_def sample_data_def sample_row_def lookup_def
      maybe_convert_objects_def seen0_def float_of_int_exact)

section \<open>Reading a dataset\<close>

text \<open>
  Claim C1 says that with \<open>limit = 0\<close> every row of the dataset is returned. It is not
  so for a dataset without columns: the rows \<^verbatim>\<open>[{}, {}]\<close> make a table of two rows,
  and \<open>get\<close> returns no record for it while it reports two rows in total.
\<close>

theorem get_dataset_limit_counterexample:
  "fst (create_dataset example_library Map.empty \<lparr>name = ''t'', data = [[], []]\<rparr>) =
     Inr (Created (''Dataset '' @ quoted ''t'' @ '' created successfully'') (2, 0) [])
   \<and> fst (get_dataset_route
            (snd (create_dataset example_library Map.empty \<lparr>name = ''t'', data = [[], []]\<rparr>))
            ''t'' (Some 0)) =
       Inr (Dataset [] [] 2 [])"
  by (simp add: create_dataset_def pd_DataFrame_def example_library_def from_records_def
      get_dataset_route_def get_dataset_def to_dict_records_def columns_of_def dtypes_of_def
      shape_def)

text \<open>
  Claim C1, amended. For a dataset in the store: a request without the \<open>limit\<close>
  parameter calls the handler with the literal 100 and gets the first 100 records, so
  at most 100; with \<open>limit = 0\<close> no cap is applied and the records of the whole
  dataset are returned, which is every row when the dataset has at least one column;
  and for every limit the total row count in the answer is the row count of the whole
  dataset.
\<close>

theorem get_dataset_limit:
  assumes "store nm = Some df"
  shows "get_dataset_route store nm None = get_dataset store nm (Some 100)
       \<and> get_dataset store nm (Some 100) =
           (Inr (Dataset (take 100 (to_dict_records df)) (columns_of df) (nrows df)
                   (dtypes_of df)), store)
       \<and> length (take 100 (to_dict_records df)) \<le> 100
       \<and> get_dataset_route store nm (Some 0) =
           (Inr (Dataset (to_dict_records df) (columns_of df) (nrows df) (dtypes_of df)),
            store)
       \<and> (cols df \<noteq> [] \<longrightarrow>
            length (to_dict_records df) = nrows df
          \<and> length (take 100 (to_dict_records df)) = min 100 (nrows df))
       \<and> (\<forall>limit. \<exists>rows.
             get_dataset store nm limit =
               (Inr (Dataset rows (columns_of df) (nrows df) (dtypes_of df)), store))"
  using assms
  by (simp add: get_dataset_route_def get_dataset_def to_dict_records_head
      length_to_dict_records Let_def min.commute split: option.split)

theorem get_dataset_limit_witness:
  "get_dataset_route (Map.empty(''t'' \<mapsto> many_rows)) ''t'' None =
     get_dataset (Map.empty(''t'' \<mapsto> many_rows)) ''t'' (Some 100)
   \<and> length (take 100 (to_dict_records many_rows)) = 100
   \<and> length (to_dict_records many_rows) = 150
   \<and> get_dataset_route (Map.empty(''t'' \<mapsto> many_rows)) ''t'' (Some 0) =
       (Inr (Dataset (to_dict_records many_rows) [''id''] 150 [(''id'', ''int64'')]),
        Map.empty(''t'' \<mapsto> many_rows))"
proof -
  have c: "cols many_rows \<noteq> []" and n: "nrows many_rows = 150"
    and cs: "columns_of many_rows = [''id'']" and ds: "dtypes_of many_rows = [(''id'', ''int64'')]"
    by (simp_all add: many_rows_def columns_of_def dtypes_of_def)
  from get_dataset_limit [of "Map.empty(''t'' \<mapsto> many_rows)" "''t''" many_rows]
  show ?thesis
    by (simp add: c n cs ds)
qed

section \<open>Unknown operation tags\<close>

text \<open>
  Claim C3. For a dataset in the store and a column of it, \<open>filter\<close> with a tag other
  than eq, gt, lt, contains and \<open>aggregate\<close> with a tag other than sum, mean, median,
  count, min, max both end in the final \<^verbatim>\<open>else\<close>: the handler raises
  \<^verbatim>\<open>HTTPException(400, "Invalid operation")\<close>, its own \<^verbatim>\<open>except\<close> clause catches it
  and answers with status 400 and the text of that exception. No operation of the
  library is reached, so no other error is possible.
\<close>

theorem unknown_operation:
  assumes "store (dataset_name fr) = Some df"
      and "column fr \<in> set (columns_of df)"
      and "operation fr \<notin> set [''eq'', ''gt'', ''lt'', ''contains'']"
      and "store (dataset_name ar) = Some df'"
      and "column ar \<in> set (columns_of df')"
      and "operation ar \<notin> set [''sum'', ''mean'', ''median'', ''count'', ''min'', ''max'']"
  shows "filter_data L store fr =
           (Inl (HTTPException 400 (StrOf (HTTPExc 400 ''Invalid operation''))), store)
       \<and> aggregate_data L store ar =
           (Inl (HTTPException 400 (StrOf (HTTPExc 400 ''Invalid operation''))), store)"
proof -
  obtain s where s: "map_of (cols df) (column fr) = Some s"
    using column_lookup [OF assms(2)] by blast
  obtain s' where s': "map_of (cols df') (column ar) = Some s'"
    using column_lookup [OF assms(5)] by blast
  have "filter_mask L s (operation fr) (cmp_value fr) = Inl (HTTPExc 400 ''Invalid operation'')"
    using assms(3) by (simp add: filter_mask_def)
  moreover have "reduction L s' (operation ar) = Inl (HTTPExc 400 ''Invalid operation'')"
    using assms(6) by (simp add: reduction_def)
  ultimately show ?thesis
    using assms(1,4) s s' by (simp add: filter_data_def aggregate_data_def)
qed

theorem unknown_operation_witness:
  "filter_data example_library (Map.empty(''t'' \<mapsto> one_cell))
     \<lparr>dataset_name = ''t'', column = ''a'', operation = ''like'', cmp_value = PInt 1\<rparr> =
     (Inl (HTTPException 400 (StrOf (HTTPExc 400 ''Invalid operation''))),
      Map.empty(''t'' \<mapsto> one_cell))
   \<and> aggregate_data example_library (Map.empty(''t'' \<mapsto> one_cell))
       \<lparr>dataset_name = ''t'', column = ''a'', operation = ''avg''\<rparr> =
     (Inl (HTTPException 400 (StrOf (HTTPExc 400 ''Invalid operation''))),
      Map.empty(''t'' \<mapsto> one_cell))"
  using unknown_operation [of "Map.empty(''t'' \<mapsto> one_cell)"
      "\<lparr>dataset_name = ''t'', column = ''a'', operation = ''like'', cmp_value = PInt 1\<rparr>"
      one_cell "\<lparr>dataset_name = ''t'', column = ''a'', operation = ''avg''\<rparr>" one_cell
      example_library]
  by (simp add: one_cell_def columns_of_def)

section \<open>Filtering leaves the store alone\<close>

text \<open>
  Claim C8. Whatever the dataset name, the column, the operation tag and the value,
  the store after \<open>filter\<close> is the store before it: the handler only reads the table
  and builds a new one from the mask.
\<close>

theorem filter_keeps_store: "snd (filter_data L store request) = store"
  by (simp add: filter_data_def Let_def split: option.split sum.split)

section \<open>Creating a dataset\<close>

text \<open>
  Claim C9. When the table can be built from the uploaded rows, \<open>create\<close> succeeds and
  binds the name to the new table, whether or not the name was bound before; every
  other name keeps its dataset.
\<close>

theorem create_overwrites:
  assumes "pd_DataFrame L (data u) = Inr df"
  shows "create_dataset L store u =
           (Inr (Created (''Dataset '' @ quoted (name u) @ '' created successfully'')
                   (shape df) (columns_of df)),
            store(name u \<mapsto> df))
       \<and> snd (create_dataset L store u) (name u) = Some df
       \<and> (\<forall>other. other \<noteq> name u \<longrightarrow> snd (create_dataset L store u) other = store other)"
  using assms by (simp add: create_dataset_def)

theorem create_overwrites_witness:
  "create_dataset example_library (Map.empty(''t'' \<mapsto> \<lparr>nrows = 150, cols = []\<rparr>))
     \<lparr>name = ''t'', data = [[(''a'', PInt 1)]]\<rparr> =
     (Inr (Created (''Dataset '' @ quoted ''t'' @ '' created successfully'') (1, 1) [''a'']),
      Map.empty(''t'' \<mapsto> one_cell))"
  using create_overwrites [of example_library "\<lparr>name = ''t'', data = [[(''a'', PInt 1)]]\<rparr>"
      one_cell "Map.empty(''t'' \<mapsto> \<lparr>nrows = 150, cols = []\<rparr>)"]
  by (simp add: pd_DataFrame_def example_library_def from_records_one shape_def
      columns_of_def one_cell_def)

text \<open>
  Claim C10. When building the table raises, \<open>create\<close> answers with status 400 and the
  store is the one before the call: the name is bound only after the table is built.
\<close>

theorem create_failure_keeps_store:
  assumes "pd_DataFrame L (data u) = Inl e"
  shows "create_dataset L store u = (Inl (HTTPException 400 (StrOf (LibExc e))), store)"
  using assms by (simp add: create_dataset_def)

theorem create_failure_keeps_store_witness:
  "create_dataset example_library (Map.empty(''t'' \<mapsto> one_cell))
     \<lparr>name = ''t'', data = [[(''a'', PInt too_large)]]\<rparr> =
     (Inl (HTTPException 400 (StrOf (LibExc (OverflowError_float too_large)))),
      Map.empty(''t'' \<mapsto> one_cell))
   \<and> create_dataset
       (example_library\<lparr>DataFrame_raises := \<lambda>rows. Some (LibraryError ''rejected'')\<rparr>)
       (Map.empty(''t'' \<mapsto> one_cell)) \<lparr>name = ''t'', data = [[(''a'', PInt 2)]]\<rparr> =
     (Inl (HTTPException 400 (StrOf (LibExc (LibraryError ''rejected'')))),
      Map.empty(''t'' \<mapsto> one_cell))"
  using create_failure_keeps_store [of example_library
      "\<lparr>name = ''t'', data = [[(''a'', PInt too_large)]]\<rparr>"
      "OverflowError_float too_large" "Map.empty(''t'' \<mapsto> one_cell)"]
    create_failure_keeps_store
      [of "example_library\<lparr>DataFrame_raises := \<lambda>rows. Some (LibraryError ''rejected'')\<rparr>"
      "\<lparr>name = ''t'', data = [[(''a'', PInt 2)]]\<rparr>"
      "LibraryError ''rejected''" "Map.empty(''t'' \<mapsto> one_cell)"]
  by (simp add: pd_DataFrame_def example_library_def from_records_too_large)

section \<open>The sum of the salaries\<close>

text \<open>
  Claim C7. On the store the service starts with, \<open>aggregate\<close> with tag sum over the
  column salary of the dataset sample returns 387000.
\<close>

theorem sample_salary_sum:
  assumes "startup L = Inr store"
  shows "aggregate_data L store
           \<lparr>dataset_name = ''sample'', column = ''salary'', operation = ''sum''\<rparr> =
         (Inr (Aggregated ''salary'' ''sum'' (Some (Fin 387000))), store)
       \<and> 75000 + 85000 + 65000 + 90000 + 72000 = (387000 :: rat)"
proof -
  from assms obtain df where df: "pd_DataFrame L sample_data = Inr df"
    and store: "store = Map.empty(''sample'' \<mapsto> df)"
    by (auto simp: startup_def split: sum.splits)
  from df have "from_records sample_data = Inr df"
    by (simp add: pd_DataFrame_def split: option.splits)
  then have cols: "map_of (cols df) ''salary'' =
      Some \<lparr>dtype = Int64,
             cells = [PInt 75000, PInt 85000, PInt 65000, PInt 90000, PInt 72000]\<rparr>"
    by (auto simp: from_records_sample)
  have "float_of_int 387000 = Inr (Fin 387000)"
    using float_of_int_exact [of 387000] by simp
  then show ?thesis
    by (simp add: aggregate_data_def store cols reduction_def raised_def Series_agg_def
        wrap_int64_def)
qed

theorem sample_salary_sum_witness:
  "(\<exists>store. startup example_library = Inr store)
   \<and> (case startup example_library of
        Inl e \<Rightarrow> False
      | Inr store \<Rightarrow>
          fst (aggregate_data example_library store
                 \<lparr>dataset_name = ''sample'', column = ''salary'', operation = ''sum''\<rparr>) =
          Inr (Aggregated ''salary'' ''sum'' (Some (Fin 387000))))"
proof -
  obtain store where s: "startup example_library = Inr store"
    by (simp add: startup_def pd_DataFrame_def example_library_def from_records_sample)
  from sample_salary_sum [OF s] show ?thesis by (simp add: s)
qed

lemma from_records_nulls:
  "from_records [[(''a'', PNone)], [(''b'', PInt 1)]] =
     Inr \<lparr>nrows = 2,
          cols = [(''a'', \<lparr>dtype = Float64, cells = [PFloat NaN, PFloat NaN]\<rparr>),
                  (''b'', \<lparr>dtype = Float64, cells = [PFloat NaN, PFloat (Fin 1)]\<rparr>)]\<rparr>"
  by (simp add: from_records_def lookup_def maybe_convert_objects_def seen0_def
      float_of_int_exact)

lemma startup_example:
  "startup example_library =
     Inr (Map.empty(''sample'' \<mapsto>
       \<lparr>nrows = 5,
        cols =
          [(''id'', \<lparr>dtype = Int64, cells = [PInt 1, PInt 2, PInt 3, PInt 4, PInt 5]\<rparr>),
           (''name'', \<lparr>dtype = Object,
              cells = [PStr ''Alice'', PStr ''Bob'', PStr ''Charlie'', PStr ''Diana'',
                       PStr ''Eve'']\<rparr>),
           (''age'', \<lparr>dtype = Int64,
              cells = [PInt 30, PInt 25, PInt 35, PInt 28, PInt 32]\<rparr>),
           (''city'', \<lparr>dtype = Object,
              cells = [PStr ''New York'', PStr ''San Francisco'', PStr ''Los Angeles'',
                       PStr ''New York'', PStr ''Chicago'']\<rparr>),
           (''salary'', \<lparr>dtype = Int64,
              cells = [PInt 75000, PInt 85000, PInt 65000, PInt 90000, PInt 72000]\<rparr>)]\<rparr>))"
  by (simp add: startup_def pd_DataFrame_def example_library_def from_records_sample)

lemma least_Min: "xs \<noteq> [] \<Longrightarrow> least xs = Min (set xs)"
proof (cases xs)
  case Nil
  assume "xs \<noteq> []"
  with Nil show ?thesis by simp
next
  case (Cons a list)
  then show ?thesis
    unfolding least_def using Min.set_eq_fold [of a list] by simp
qed

lemma greatest_Max: "xs \<noteq> [] \<Longrightarrow> greatest xs = Max (set xs)"
proof (cases xs)
  case Nil
  assume "xs \<noteq> []"
  with Nil show ?thesis by simp
next
  case (Cons a list)
  then show ?thesis
    unfolding greatest_def using Max.set_eq_fold [of a list] by simp
qed

lemma least_names:
  "least [''Alice'', ''Bob'', ''Charlie'', ''Diana'', ''Eve''] = ''Alice''"
  by (simp add: least_def min_def less_eq_char_def less_char_def)

section \<open>Reductions without a value\<close>

text \<open>
  Claim C6. For a dataset in the store and a column of it: when the reduction of the
  requested operation returns a missing value (\<^verbatim>\<open>None\<close> or NaN, as the mean of a
  numeric column without values does), \<open>aggregate\<close> succeeds and its result is
  \<^verbatim>\<open>None\<close>.
\<close>

theorem aggregate_missing_result:
  assumes "store (dataset_name ar) = Some df"
      and "map_of (cols df) (column ar) = Some s"
      and "reduction L s (operation ar) = Inr r"
      and "\<not> notna r"
  shows "aggregate_data L store ar =
           (Inr (Aggregated (column ar) (operation ar) None), store)"
  using assms by (simp add: aggregate_data_def)

theorem aggregate_missing_result_witness:
  "fst (create_dataset example_library Map.empty
          \<lparr>name = ''t'', data = [[(''a'', PNone)], [(''b'', PInt 1)]]\<rparr>) =
     Inr (Created (''Dataset '' @ quoted ''t'' @ '' created successfully'') (2, 2) [''a'', ''b''])
   \<and> fst (aggregate_data example_library
            (snd (create_dataset example_library Map.empty
                    \<lparr>name = ''t'', data = [[(''a'', PNone)], [(''b'', PInt 1)]]\<rparr>))
            \<lparr>dataset_name = ''t'', column = ''a'', operation = ''mean''\<rparr>) =
     Inr (Aggregated ''a'' ''mean'' None)"
  using aggregate_missing_result
    [of "snd (create_dataset example_library Map.empty
                \<lparr>name = ''t'', data = [[(''a'', PNone)], [(''b'', PInt 1)]]\<rparr>)"
      "\<lparr>dataset_name = ''t'', column = ''a'', operation = ''mean''\<rparr>"
      "\<lparr>nrows = 2,
        cols = [(''a'', \<lparr>dtype = Float64, cells = [PFloat NaN, PFloat NaN]\<rparr>),
                (''b'', \<lparr>dtype = Float64, cells = [PFloat NaN, PFloat (Fin 1)]\<rparr>)]\<rparr>"
      "\<lparr>dtype = Float64, cells = [PFloat NaN, PFloat NaN]\<rparr>" example_library "PFloat NaN"]
  by (simp add: create_dataset_def pd_DataFrame_def example_library_def from_records_nulls
      reduction_def raised_def Series_agg_def shape_def columns_of_def)

section \<open>Minimum and maximum of strings\<close>

text \<open>
  Claim C2 says that \<open>aggregate\<close> with min or max succeeds on every column of strings.
  It does not: the handler passes the minimum to \<^verbatim>\<open>float\<close>, and on the column name of
  the seeded dataset \<^verbatim>\<open>float('Alice')\<close> raises, whatever the library does on other
  strings.
\<close>

theorem string_min_counterexample:
  "fst (aggregate_data (example_library\<lparr>float_of_str := \<lambda>s. Inr (Fin 0)\<rparr>)
          (Map.empty(''sample'' \<mapsto>
             \<lparr>nrows = 5,
              cols = [(''name'', \<lparr>dtype = Object,
                         cells = [PStr ''Alice'', PStr ''Bob'', PStr ''Charlie'',
                                  PStr ''Diana'', PStr ''Eve'']\<rparr>)]\<rparr>))
          \<lparr>dataset_name = ''sample'', column = ''name'', operation = ''min''\<rparr>) =
     Inl (HTTPException 400 (StrOf (LibExc (ValueError_float ''Alice''))))"
  by (simp add: aggregate_data_def reduction_def raised_def Series_agg_def least_names
      example_library_def)

text \<open>
  Claim C2, amended. For a column whose cells are all strings, with at least one row,
  \<open>aggregate\<close> with min or max takes the least or greatest string in the order of
  Python (by code point, a prefix first) and applies \<^verbatim>\<open>float\<close> to it: the result is
  that number when \<^verbatim>\<open>float\<close> accepts the string, and status 400 when it does not.
\<close>

theorem string_min_max:
  assumes "store (dataset_name ar) = Some df"
      and "map_of (cols df) (column ar) = Some s"
      and "dtype s = Object" and "cells s \<noteq> []" and "list_all is_str (cells s)"
      and "operation ar = ''min'' \<or> operation ar = ''max''"
  shows "aggregate_data L store ar =
           (case py_float L
                   (PStr (if operation ar = ''min'' then Min (set (map the_str (cells s)))
                          else Max (set (map the_str (cells s))))) of
              Inl e \<Rightarrow> (Inl (HTTPException 400 (StrOf (LibExc e))), store)
            | Inr x \<Rightarrow> (Inr (Aggregated (column ar) (operation ar) (Some x)), store))"
proof -
  have ne: "map the_str (cells s) \<noteq> []" using assms(4) by simp
  from assms(6) show ?thesis
  proof
    assume op: "operation ar = ''min''"
    have "reduction L s (operation ar) = Inr (PStr (Min (set (map the_str (cells s)))))"
      using assms(3,4,5) by (simp add: op reduction_def raised_def Series_agg_def least_Min [OF ne])
    then show ?thesis
      using assms(1,2) by (simp add: aggregate_data_def op del: py_float.simps)
  next
    assume op: "operation ar = ''max''"
    have "reduction L s (operation ar) = Inr (PStr (Max (set (map the_str (cells s)))))"
      using assms(3,4,5)
      by (simp add: op reduction_def raised_def Series_agg_def greatest_Max [OF ne])
    then show ?thesis
      using assms(1,2) by (simp add: aggregate_data_def op del: py_float.simps)
  qed
qed

theorem string_min_max_witness:
  "aggregate_data example_library
     (Map.empty(''t'' \<mapsto>
        \<lparr>nrows = 2, cols = [(''a'', \<lparr>dtype = Object, cells = [PStr ''b'', PStr ''a'']\<rparr>)]\<rparr>))
     \<lparr>dataset_name = ''t'', column = ''a'', operation = ''max''\<rparr> =
     (Inl (HTTPException 400 (StrOf (LibExc (ValueError_float ''b'')))),
      Map.empty(''t'' \<mapsto>
        \<lparr>nrows = 2, cols = [(''a'', \<lparr>dtype = Object, cells = [PStr ''b'', PStr ''a'']\<rparr>)]\<rparr>))"
  using string_min_max
    [of "Map.empty(''t'' \<mapsto>
        \<lparr>nrows = 2, cols = [(''a'', \<lparr>dtype = Object, cells = [PStr ''b'', PStr ''a'']\<rparr>)]\<rparr>)"
      "\<lparr>dataset_name = ''t'', column = ''a'', operation = ''max''\<rparr>"
      "\<lparr>nrows = 2, cols = [(''a'', \<lparr>dtype = Object, cells = [PStr ''b'', PStr ''a'']\<rparr>)]\<rparr>"
      "\<lparr>dtype = Object, cells = [PStr ''b'', PStr ''a'']\<rparr>" example_library]
  by (simp add: less_eq_char_def less_char_def max_def)

lemma starts_with_iff: "starts_with pat s \<longleftrightarrow> (\<exists>v. s = pat @ v)"
  by (induction pat s rule: starts_with.induct) auto

lemma substring_iff: "substring pat s \<longleftrightarrow> (\<exists>u v. s = u @ pat @ v)"
proof (induction s)
  case Nil
  show ?case by (auto simp: starts_with_iff)
next
  case (Cons c s)
  show ?case
  proof
    assume "substring pat (c # s)"
    then consider "starts_with pat (c # s)" | "substring pat s" by auto
    then show "\<exists>u v. c # s = u @ pat @ v"
    proof cases
      case 1
      then obtain v where "c # s = pat @ v" by (auto simp: starts_with_iff)
      then have "c # s = [] @ pat @ v" by simp
      then show ?thesis by blast
    next
      case 2
      then obtain u v where "s = u @ pat @ v" using Cons by auto
      then have "c # s = (c # u) @ pat @ v" by simp
      then show ?thesis by blast
    qed
  next
    assume "\<exists>u v. c # s = u @ pat @ v"
    then obtain u v where uv: "c # s = u @ pat @ v" by blast
    show "substring pat (c # s)"
    proof (cases u)
      case Nil
      with uv have "starts_with pat (c # s)" by (auto simp: starts_with_iff)
      then show ?thesis by simp
    next
      case (Cons a u')
      with uv have "s = u' @ pat @ v" by simp
      then have "substring pat s" using Cons.IH by blast
      then show ?thesis by simp
    qed
  qed
qed

lemma match_here_literal:
  "CHR ''.'' \<notin> set pat \<Longrightarrow> match_here pat s = starts_with pat s"
  by (induction pat s rule: match_here.induct) (auto simp: atom_matches_def)

lemma search_literal:
  "CHR ''.'' \<notin> set pat \<Longrightarrow> search pat s = substring pat s"
  by (induction s) (auto simp: match_here_literal)

lemma select_map: "select keep (map f ys) = map f (select keep ys)"
  by (simp add: select_def zip_map2 filter_map o_def split_def)

lemma select_nth: "select keep xs = map (nth xs) (select keep [0..<length xs])"
proof -
  have "select keep xs = select keep (map (nth xs) [0..<length xs])"
    by (simp add: map_nth)
  then show ?thesis by (simp only: select_map)
qed

lemma select_Nil: "select keep [] = []"
  by (simp add: select_def)

lemma to_dict_records_boolean_index:
  assumes "wf_frame df"
  shows "to_dict_records (boolean_index df keep) = select keep (to_dict_records df)"
proof (cases "cols df = []")
  case True
  then show ?thesis
    by (simp add: to_dict_records_def boolean_index_def select_Nil)
next
  case False
  let ?idx = "select keep [0..<nrows df]"
  have cell: "select keep (cells s) ! j = cells s ! (?idx ! j)"
    if "(c, s) \<in> set (cols df)" and "j < length ?idx" for c s j
  proof -
    from that(1) assms have len: "length (cells s) = nrows df"
      by (auto simp: wf_frame_def list_all_iff)
    have "select keep (cells s) = map (nth (cells s)) ?idx"
      using select_nth [of keep "cells s"] by (simp add: len)
    then show ?thesis using that(2) by simp
  qed
  have "to_dict_records (boolean_index df keep) =
          map (\<lambda>j. map (\<lambda>(c, s). (c, select keep (cells s) ! j)) (cols df)) [0..<length ?idx]"
    using False by (simp add: to_dict_records_def boolean_index_def o_def split_def)
  also have "\<dots> = map (\<lambda>j. map (\<lambda>(c, s). (c, cells s ! (?idx ! j))) (cols df)) [0..<length ?idx]"
    by (rule map_cong [OF refl], rule map_cong [OF refl]) (auto simp: cell)
  also have "\<dots> = map (\<lambda>i. map (\<lambda>(c, s). (c, cells s ! i)) (cols df)) ?idx"
    by (simp add: map_equality_iff)
  also have "\<dots> = select keep (to_dict_records df)"
    using False by (simp add: to_dict_records_def select_map)
  finally show ?thesis .
qed

lemma nrows_boolean_index:
  "cols df \<noteq> [] \<Longrightarrow>
     nrows (boolean_index df keep) = length (select keep (to_dict_records df))"
  by (simp add: boolean_index_def to_dict_records_def select_map)

section \<open>Filtering with contains\<close>

text \<open>
  Claim C5 says that \<open>contains\<close> keeps exactly the rows whose cell, as a string, has
  the string of the value as a substring. The handler passes the string of the value
  to \<^verbatim>\<open>str.contains\<close> with its default \<^verbatim>\<open>regex=True\<close>, so the value is a regular
  expression: with the value \<^verbatim>\<open>"."\<close> both rows below are kept, and the dot occurs in
  neither name.
\<close>

theorem contains_counterexample:
  "fst (filter_data example_library
          (Map.empty(''t'' \<mapsto> two_names))
          \<lparr>dataset_name = ''t'', column = ''name'', operation = ''contains'',
            cmp_value = PStr ''.''\<rparr>) =
     Inr (Filtered [[(''name'', PStr ''Alice'')], [(''name'', PStr ''Bob'')]] 2)
   \<and> \<not> substring ''.'' ''Alice'' \<and> \<not> substring ''.'' ''Bob''"
  by (simp add: filter_data_def filter_mask_def raised_def str_contains_def astype_str_def
      simple_pattern_def metachars_def atom_matches_def boolean_index_def select_def
      to_dict_records_def example_library_def numeral_2_eq_2 two_names_def)

text \<open>
  Claim C5, amended. For a dataset in the store, a column of it and a value whose
  string has none of the metacharacters of regular expressions, \<open>contains\<close> raises
  nothing and returns rows of the dataset in their order; among the rows whose cell is
  not missing it keeps exactly those whose cell, as a string, has the string of the
  value as a substring. On a missing cell nothing is stated here.
\<close>

theorem contains_literal:
  assumes "store (dataset_name fr) = Some df"
      and "wf_frame df"
      and "map_of (cols df) (column fr) = Some s"
      and "operation fr = ''contains''"
      and "simple_pattern (py_str L (cmp_value fr))"
      and "CHR ''.'' \<notin> set (py_str L (cmp_value fr))"
  shows "\<exists>keep. length keep = nrows df
           \<and> filter_data L store fr =
               (Inr (Filtered (select keep (to_dict_records df))
                       (length (select keep (to_dict_records df)))), store)
           \<and> (\<forall>i < nrows df. notna (cells s ! i) \<longrightarrow>
                 keep ! i = substring (py_str L (cmp_value fr)) (py_str L (cells s ! i)))"
proof -
  let ?pat = "py_str L (cmp_value fr)"
  let ?keep = "map (search ?pat) (astype_str L s)"
  have mem: "(column fr, s) \<in> set (cols df)"
    using assms(3) by (rule map_of_SomeD)
  then have ne: "cols df \<noteq> []" by auto
  from mem assms(2) have len: "length (cells s) = nrows df"
    by (auto simp: wf_frame_def list_all_iff)
  have "filter_mask L s (operation fr) (cmp_value fr) = Inr ?keep"
    using assms(4,5) by (simp add: filter_mask_def raised_def str_contains_def)
  then have "filter_data L store fr =
      (Inr (Filtered (select ?keep (to_dict_records df))
              (length (select ?keep (to_dict_records df)))), store)"
    using assms(1,3)
    by (simp add: filter_data_def Let_def to_dict_records_boolean_index [OF assms(2)]
        nrows_boolean_index [OF ne])
  moreover have "length ?keep = nrows df"
    by (simp add: astype_str_def len)
  moreover have "\<forall>i < nrows df. notna (cells s ! i) \<longrightarrow>
      ?keep ! i = substring ?pat (py_str L (cells s ! i))"
    using assms(6) by (simp add: astype_str_def len search_literal)
  ultimately show ?thesis by blast
qed

theorem contains_literal_witness:
  "(\<exists>keep. length keep = 2
      \<and> filter_data example_library (Map.empty(''t'' \<mapsto> two_names))
          \<lparr>dataset_name = ''t'', column = ''name'', operation = ''contains'',
            cmp_value = PStr ''li''\<rparr> =
         (Inr (Filtered (select keep (to_dict_records two_names))
                 (length (select keep (to_dict_records two_names)))),
          Map.empty(''t'' \<mapsto> two_names))
      \<and> keep ! 0 = substring ''li'' ''Alice'' \<and> keep ! 1 = substring ''li'' ''Bob'')
   \<and> fst (filter_data example_library (Map.empty(''t'' \<mapsto> two_names))
          \<lparr>dataset_name = ''t'', column = ''name'', operation = ''contains'',
            cmp_value = PStr ''li''\<rparr>) =
       Inr (Filtered [[(''name'', PStr ''Alice'')]] 1)"
proof
  from contains_literal [of "Map.empty(''t'' \<mapsto> two_names)"
      "\<lparr>dataset_name = ''t'', column = ''name'', operation = ''contains'',
        cmp_value = PStr ''li''\<rparr>" two_names
      "\<lparr>dtype = Object, cells = [PStr ''Alice'', PStr ''Bob'']\<rparr>" example_library]
  obtain keep where "length keep = nrows two_names"
    and "filter_data example_library (Map.empty(''t'' \<mapsto> two_names))
          \<lparr>dataset_name = ''t'', column = ''name'', operation = ''contains'',
            cmp_value = PStr ''li''\<rparr> =
         (Inr (Filtered (select keep (to_dict_records two_names))
                 (length (select keep (to_dict_records two_names)))),
          Map.empty(''t'' \<mapsto> two_names))"
    and "\<forall>i < nrows two_names.
           notna ([PStr ''Alice'', PStr ''Bob''] ! i) \<longrightarrow>
           keep ! i = substring ''li'' (py_str example_library ([PStr ''Alice'', PStr ''Bob''] ! i))"
    by (auto simp: wf_frame_def simple_pattern_def metachars_def two_names_def)
  moreover from this(3) have "keep ! 0 = substring ''li'' ''Alice''"
    and "keep ! 1 = substring ''li'' ''Bob''"
    by (simp_all add: two_names_def)
  ultimately show "\<exists>keep. length keep = 2
      \<and> filter_data example_library (Map.empty(''t'' \<mapsto> two_names))
          \<lparr>dataset_name = ''t'', column = ''name'', operation = ''contains'',
            cmp_value = PStr ''li''\<rparr> =
         (Inr (Filtered (select keep (to_dict_records two_names))
                 (length (select keep (to_dict_records two_names)))),
          Map.empty(''t'' \<mapsto> two_names))
      \<and> keep ! 0 = substring ''li'' ''Alice'' \<and> keep ! 1 = substring ''li'' ''Bob''"
    by (auto simp: two_names_def)
next
  show "fst (filter_data example_library (Map.empty(''t'' \<mapsto> two_names))
          \<lparr>dataset_name = ''t'', column = ''name'', operation = ''contains'',
            cmp_value = PStr ''li''\<rparr>) =
       Inr (Filtered [[(''name'', PStr ''Alice'')]] 1)"
    by (simp add: filter_data_def filter_mask_def raised_def str_contains_def astype_str_def
      simple_pattern_def metachars_def atom_matches_def boolean_index_def select_def
      to_dict_records_def example_library_def numeral_2_eq_2 two_names_def)
qed

lemma py_eq_refl:
  assumes "v \<noteq> PFloat NaN"
  shows "py_eq v v"
proof (cases v)
  case (PFloat f)
  with assms show ?thesis by (cases f) auto
qed auto

lemma saw_back:
  assumes "saw s v = Inr s1"
  shows "(seen_null s1 \<longrightarrow> seen_null s \<or> v = PNone)
       \<and> (seen_nan s1 \<longrightarrow> seen_nan s \<or> v = PFloat NaN)
       \<and> (seen_float s1 \<longrightarrow> seen_float s \<or> is_float v)
       \<and> (seen_int s1 \<longrightarrow> seen_int s \<or> (\<exists>n. v = PInt n))"
proof (cases v)
  case (PFloat f)
  with assms show ?thesis by (cases f) auto
next
  case (PInt n)
  with assms show ?thesis
    by (auto simp: Let_def split: sum.splits if_splits)
qed (use assms in auto)

lemma scan_back:
  "scan s vs = Inr s' \<Longrightarrow>
     (seen_null s' \<longrightarrow> seen_null s \<or> PNone \<in> set vs)
   \<and> (seen_nan s' \<longrightarrow> seen_nan s \<or> PFloat NaN \<in> set vs)
   \<and> (seen_float s' \<longrightarrow> seen_float s \<or> list_ex is_float vs)
   \<and> (seen_int s' \<longrightarrow> seen_int s \<or> (\<exists>n. PInt n \<in> set vs))"
proof (induction vs arbitrary: s)
  case Nil
  then show ?case by simp
next
  case (Cons v vs)
  from Cons.prems obtain s1 where s1: "saw s v = Inr s1"
    by (auto split: sum.splits)
  note b = saw_back [OF s1]
  show ?case
  proof (cases "seen_object s1")
    case True
    with Cons.prems s1 have "s' = s1" by simp
    with b show ?thesis by auto
  next
    case False
    with Cons.prems s1 have "scan s1 vs = Inr s'" by simp
    from Cons.IH [OF this] b show ?thesis by auto
  qed
qed

lemma saw_keeps_bool: "saw s v = Inr s1 \<Longrightarrow> seen_bool s \<Longrightarrow> seen_bool s1"
proof (cases v)
  case (PFloat f)
  assume "saw s v = Inr s1" and "seen_bool s"
  with PFloat show ?thesis by (cases f) auto
qed (auto simp: Let_def split: sum.splits if_splits)

lemma scan_keeps_bool: "scan s vs = Inr s' \<Longrightarrow> seen_bool s \<Longrightarrow> seen_bool s'"
proof (induction vs arbitrary: s)
  case Nil
  then show ?case by simp
next
  case (Cons v vs)
  from Cons.prems(1) obtain s1 where s1: "saw s v = Inr s1"
    by (auto split: sum.splits)
  from saw_keeps_bool [OF s1 Cons.prems(2)] have b: "seen_bool s1" .
  show ?case
  proof (cases "seen_object s1")
    case True
    with Cons.prems(1) s1 have "s' = s1" by simp
    with b show ?thesis by simp
  next
    case False
    with Cons.prems(1) s1 have "scan s1 vs = Inr s'" by simp
    from Cons.IH [OF this b] show ?thesis .
  qed
qed

lemma scan_str: "scan s vs = Inr s' \<Longrightarrow> list_ex is_str vs \<Longrightarrow> seen_object s'"
proof (induction vs arbitrary: s)
  case Nil
  then show ?case by simp
next
  case (Cons v vs)
  from Cons.prems(1) obtain s1 where s1: "saw s v = Inr s1"
    by (auto split: sum.splits)
  show ?case
  proof (cases "seen_object s1")
    case True
    with Cons.prems(1) s1 show ?thesis by simp
  next
    case False
    with Cons.prems(1) s1 have sc: "scan s1 vs = Inr s'" by simp
    from False s1 have "\<not> is_str v" by (cases v) auto
    with Cons.prems(2) have "list_ex is_str vs" by simp
    from Cons.IH [OF sc this] show ?thesis .
  qed
qed

lemma scan_bool:
  "scan s vs = Inr s' \<Longrightarrow> list_ex is_bool vs \<Longrightarrow> seen_bool s' \<or> seen_object s'"
proof (induction vs arbitrary: s)
  case Nil
  then show ?case by simp
next
  case (Cons v vs)
  from Cons.prems(1) obtain s1 where s1: "saw s v = Inr s1"
    by (auto split: sum.splits)
  show ?case
  proof (cases "seen_object s1")
    case True
    with Cons.prems(1) s1 show ?thesis by simp
  next
    case False
    with Cons.prems(1) s1 have sc: "scan s1 vs = Inr s'" by simp
    show ?thesis
    proof (cases "is_bool v")
      case True
      with s1 have "seen_bool s1" by (cases v) auto
      from scan_keeps_bool [OF sc this] show ?thesis by simp
    next
      case False
      with Cons.prems(2) have "list_ex is_bool vs" by simp
      from Cons.IH [OF sc this] show ?thesis .
    qed
  qed
qed

lemma to_double_eq:
  assumes "v \<noteq> PNone" and "v \<noteq> PFloat NaN" and "exact_int v"
  shows "py_eq (to_double v) v"
proof (cases v)
  case (PInt n)
  with assms(3) show ?thesis by simp
next
  case (PFloat f)
  with assms(2) show ?thesis by (cases f) auto
qed (use assms in auto)

lemma maybe_convert_objects_eq:
  assumes "maybe_convert_objects vs = Inr s" and "safe_column vs"
  shows "list_all2 py_eq (cells s) vs"
proof -
  from assms(1) obtain sn where sn: "scan seen0 vs = Inr sn"
    by (auto simp: maybe_convert_objects_def split: sum.splits)
  from assms(2) have nan: "PFloat NaN \<notin> set vs"
    by (simp add: safe_column_def)
  then have same: "list_all2 py_eq vs vs"
    by (auto simp: list_all2_same intro: py_eq_refl)
  from scan_back [OF sn] nan have bk: "\<not> seen_nan sn"
    "seen_null sn \<longrightarrow> PNone \<in> set vs"
    "seen_float sn \<longrightarrow> list_ex is_float vs"
    "seen_int sn \<longrightarrow> (\<exists>n. PInt n \<in> set vs)"
    by (auto simp: seen0_def)
  have kept: "seen_object sn \<or> seen_bool sn \<Longrightarrow> ?thesis"
    using assms(1) sn by (auto simp: maybe_convert_objects_def same split: if_splits)
  from assms(2) consider "list_ex is_str vs" | "list_ex is_bool vs"
    | "(PNone \<in> set vs \<longrightarrow> list_all (\<lambda>v. v = PNone) vs)
       \<and> (list_ex is_float vs \<longrightarrow> list_all exact_int vs)"
    by (auto simp: safe_column_def)
  then show ?thesis
  proof cases
    case 1
    from scan_str [OF sn 1] kept show ?thesis by simp
  next
    case 2
    from scan_bool [OF sn 2] kept show ?thesis by blast
  next
    case 3
    show ?thesis
    proof (cases "PNone \<in> set vs")
      case True
      with 3 have "\<forall>v \<in> set vs. v = PNone" by (simp add: list_all_iff)
      then have "\<not> list_ex is_float vs" and "\<not> (\<exists>n. PInt n \<in> set vs)"
        by (auto simp: list_ex_iff)
      with bk have "\<not> seen_float sn" "\<not> seen_int sn" by auto
      with assms(1) sn bk(1) show ?thesis
        by (auto simp: maybe_convert_objects_def same split: if_splits)
    next
      case False
      with bk have nn: "\<not> seen_null sn" by simp
      have conv: "list_all2 py_eq (map to_double vs) vs" if "seen_float sn"
      proof -
        from that bk 3 have "\<forall>v \<in> set vs. exact_int v"
          by (simp add: list_all_iff)
        with False nan have "\<And>v. v \<in> set vs \<Longrightarrow> py_eq (to_double v) v"
          by (intro to_double_eq) auto
        then show ?thesis
          by (simp add: list_all2_map1 list_all2_same)
      qed
      from assms(1) sn nn bk(1) show ?thesis
        by (auto simp: maybe_convert_objects_def same conv split: if_splits)
    qed
  qed
qed

lemma collect_Inr: "collect xs = Inr ys \<Longrightarrow> xs = map Inr ys"
  by (induction xs arbitrary: ys) (auto split: sum.splits)

lemma set_unique_keys: "set (unique_keys acc ks) = set acc \<union> set ks"
  by (induction ks arbitrary: acc) auto

lemma from_records_cols:
  assumes "from_records rows = Inr df"
  shows "nrows df = length rows
       \<and> (\<exists>ss. cols df = zip (unique_keys [] (concat (map (map fst) rows))) ss
              \<and> length ss = length (unique_keys [] (concat (map (map fst) rows)))
              \<and> (\<forall>j < length ss.
                    maybe_convert_objects
                      (map (\<lambda>row. lookup row (unique_keys [] (concat (map (map fst) rows)) ! j))
                         rows) = Inr (ss ! j)))"
proof -
  let ?columns = "unique_keys [] (concat (map (map fst) rows))"
  let ?arrays = "map (\<lambda>c. maybe_convert_objects (map (\<lambda>row. lookup row c) rows)) ?columns"
  from assms obtain ss where ss: "collect ?arrays = Inr ss"
    and df: "df = \<lparr>nrows = length rows, cols = zip ?columns ss\<rparr>"
    by (auto simp: from_records_def Let_def split: sum.splits)
  from collect_Inr [OF ss] have arr: "?arrays = map Inr ss" .
  then have len: "length ss = length ?columns"
    by (metis length_map)
  have "maybe_convert_objects (map (\<lambda>row. lookup row (?columns ! j)) rows) = Inr (ss ! j)"
    if "j < length ss" for j
  proof -
    from that len have "?arrays ! j = maybe_convert_objects (map (\<lambda>row. lookup row (?columns ! j)) rows)"
      by simp
    moreover from that have "map Inr ss ! j = Inr (ss ! j)" by simp
    ultimately show ?thesis unfolding arr by (rule trans [OF sym])
  qed
  with df len show ?thesis by auto
qed

lemma lookup_present:
  "k \<in> set (map fst row) \<Longrightarrow> \<exists>w. map_of row k = Some w \<and> (k, w) \<in> set row \<and> lookup row k = w"
  by (cases "map_of row k") (auto simp: lookup_def map_of_eq_None_iff dest: map_of_SomeD)

lemma round_trip_rows:
  assumes fr: "from_records rows = Inr df"
      and rect: "\<forall>row \<in> set rows. \<forall>row' \<in> set rows. set (map fst row) = set (map fst row')"
      and ne: "\<forall>row \<in> set rows. row \<noteq> []"
      and safe: "\<forall>row \<in> set rows. \<forall>k \<in> set (map fst row).
          safe_column (map (\<lambda>r. lookup r k) rows)"
  shows "list_all2 dict_eq (to_dict_records df) rows"
proof -
  let ?columns = "unique_keys [] (concat (map (map fst) rows))"
  from from_records_cols [OF fr] obtain ss where n: "nrows df = length rows"
    and cols: "cols df = zip ?columns ss" and len: "length ss = length ?columns"
    and conv: "\<And>j. j < length ss \<Longrightarrow>
        maybe_convert_objects (map (\<lambda>row. lookup row (?columns ! j)) rows) = Inr (ss ! j)"
    by blast
  have keys: "set ?columns = (\<Union>row \<in> set rows. set (map fst row))"
    by (auto simp: set_unique_keys)
  have all_keys: "set (map fst row) = set ?columns" if "row \<in> set rows" for row
    using that rect unfolding keys by blast
  have fst_cols: "map fst (cols df) = ?columns"
    using cols len by simp
  have nonempty: "cols df \<noteq> []" if "rows \<noteq> []"
  proof -
    from that obtain row where row: "row \<in> set rows" by (cases rows) auto
    with ne have "set (map fst row) \<noteq> {}" by auto
    with all_keys [OF row] have "?columns \<noteq> []" by auto
    with fst_cols show ?thesis by auto
  qed
  have "dict_eq (to_dict_records df ! i) (rows ! i)" if i: "i < length rows" for i
  proof -
    let ?row = "rows ! i"
    from i have row: "?row \<in> set rows" by simp
    from i have "rows \<noteq> []" by auto
    from nonempty [OF this]
    have out: "to_dict_records df ! i = map (\<lambda>(c, s). (c, cells s ! i)) (cols df)"
      using i n by (simp add: to_dict_records_def)
    have a: "case map_of ?row c of None \<Rightarrow> False | Some w \<Rightarrow> py_eq (cells s ! i) w"
      if cs: "(c, s) \<in> set (cols df)" for c s
    proof -
      from cs cols obtain j where j: "j < length ss" "?columns ! j = c" "ss ! j = s"
        by (auto simp: in_set_zip)
      let ?vs = "map (\<lambda>row. lookup row c) rows"
      from conv [OF j(1)] j have mco: "maybe_convert_objects ?vs = Inr s" by simp
      from j len have c: "c \<in> set ?columns" by (metis nth_mem)
      with all_keys [OF row] have "c \<in> set (map fst ?row)" by simp
      with safe row have "safe_column ?vs" by blast
      with mco have eq: "list_all2 py_eq (cells s) ?vs"
        by (rule maybe_convert_objects_eq)
      from list_all2_lengthD [OF eq] have l: "length (cells s) = length rows" by simp
      have "py_eq (cells s ! i) (?vs ! i)"
        by (rule list_all2_nthD [OF eq]) (simp add: l i)
      with i have "py_eq (cells s ! i) (lookup ?row c)" by simp
      moreover from c all_keys [OF row] lookup_present
      have "\<exists>w. map_of ?row c = Some w \<and> (c, w) \<in> set ?row \<and> lookup ?row c = w" by blast
      ultimately show ?thesis by auto
    qed
    have b: "map_of (to_dict_records df ! i) k \<noteq> None" if "(k, w) \<in> set ?row" for k w
    proof -
      from that have "k \<in> set (map fst ?row)" by force
      with all_keys [OF row] have "k \<in> set ?columns" by simp
      with fst_cols have "k \<in> fst ` set (cols df)"
        by (metis set_map)
      then have "k \<in> fst ` set (map (\<lambda>(c, s). (c, cells s ! i)) (cols df))"
        by force
      then show ?thesis
        unfolding out by (simp add: map_of_eq_None_iff)
    qed
    show ?thesis
      unfolding dict_eq_def
    proof
      show "list_all (\<lambda>(k, v). case map_of ?row k of None \<Rightarrow> False | Some w \<Rightarrow> py_eq v w)
              (to_dict_records df ! i)"
        unfolding out list_all_iff using a by auto
      show "list_all (\<lambda>(k, w). map_of (to_dict_records df ! i) k \<noteq> None) ?row"
        unfolding list_all_iff using b by auto
    qed
  qed
  moreover have "length (to_dict_records df) = length rows"
    using nonempty n by (cases "rows = []") (simp_all add: length_to_dict_records)
  ultimately show ?thesis
    by (simp add: list_all2_conv_all_nth)
qed

lemma from_records_one_null:
  "from_records [[(''a'', PInt 1)], [(''a'', PNone)]] =
     Inr \<lparr>nrows = 2,
          cols = [(''a'', \<lparr>dtype = Float64, cells = [PFloat (Fin 1), PFloat NaN]\<rparr>)]\<rparr>"
  by (simp add: from_records_def lookup_def maybe_convert_objects_def seen0_def
      float_of_int_exact)

lemma from_records_two_rows:
  "from_records [[(''a'', PInt 1), (''b'', PStr ''x'')], [(''b'', PNone), (''a'', PInt 2)]] =
     Inr \<lparr>nrows = 2,
          cols = [(''a'', \<lparr>dtype = Int64, cells = [PInt 1, PInt 2]\<rparr>),
                  (''b'', \<lparr>dtype = Object, cells = [PStr ''x'', PNone]\<rparr>)]\<rparr>"
  by (simp add: from_records_def lookup_def maybe_convert_objects_def seen0_def
      float_of_int_exact)

section \<open>Creating, then reading\<close>

text \<open>
  Claim C4 says that \<open>create\<close> followed by \<open>get\<close> with the number of rows as limit
  returns rows equal to the uploaded ones, for every rectangular list of records of
  scalars. It does not when a column of integers has a null: pandas stores the column
  as \<open>float64\<close>, and the null comes back as NaN, which equals nothing.
\<close>

theorem round_trip_counterexample:
  "fst (get_dataset_route
          (snd (create_dataset example_library Map.empty
                  \<lparr>name = ''t'', data = [[(''a'', PInt 1)], [(''a'', PNone)]]\<rparr>))
          ''t'' (Some 2)) =
     Inr (Dataset [[(''a'', PFloat (Fin 1))], [(''a'', PFloat NaN)]] [''a''] 2
            [(''a'', ''float64'')])
   \<and> \<not> list_all2 dict_eq [[(''a'', PFloat (Fin 1))], [(''a'', PFloat NaN)]]
         [[(''a'', PInt 1)], [(''a'', PNone)]]"
  by (simp add: get_dataset_route_def get_dataset_def create_dataset_def pd_DataFrame_def
      example_library_def from_records_one_null head_def slice_stop_def take_rows_def
      to_dict_records_def columns_of_def dtypes_of_def dict_eq_def numeral_2_eq_2)

text \<open>
  Claim C4, amended. Let the rows be rectangular (every record has the same keys, and
  at least one), and let every column be one that pandas stores without changing a
  value: no cell is NaN; and in a column that holds neither a string nor a boolean, a
  null occurs only when the whole column is null, and, when a float occurs, every
  integer of the column is exactly a double (as every integer below \<open>2^53\<close> is). When
  \<open>create\<close> succeeds on such rows, \<open>get\<close> with the number of rows as limit returns
  as many rows, in upload order, each equal to the uploaded one as Python compares
  dictionaries. A null in a column with a string or a boolean comes back as it was.
\<close>

theorem round_trip:
  assumes "pd_DataFrame L rows = Inr df"
      and "\<forall>row \<in> set rows. \<forall>row' \<in> set rows. set (map fst row) = set (map fst row')"
      and "\<forall>row \<in> set rows. row \<noteq> []"
      and "\<forall>row \<in> set rows. \<forall>k \<in> set (map fst row).
             safe_column (map (\<lambda>r. lookup r k) rows)"
  shows "\<exists>out.
           get_dataset_route (snd (create_dataset L store \<lparr>name = nm, data = rows\<rparr>)) nm
             (Some (int (length rows))) =
             (Inr (Dataset out (columns_of df) (length rows) (dtypes_of df)),
              snd (create_dataset L store \<lparr>name = nm, data = rows\<rparr>))
         \<and> list_all2 dict_eq out rows"
proof -
  from assms(1) have fr: "from_records rows = Inr df"
    by (simp add: pd_DataFrame_def split: option.splits)
  from from_records_cols [OF fr] have n: "nrows df = length rows" by blast
  have rows: "list_all2 dict_eq (to_dict_records df) rows"
    using fr assms(2,3,4) by (rule round_trip_rows)
  have "to_dict_records (head df (int (length rows))) = to_dict_records df"
    using to_dict_records_head_all [of df] by (simp add: n)
  then have "get_dataset_route (snd (create_dataset L store \<lparr>name = nm, data = rows\<rparr>)) nm
             (Some (int (length rows))) =
             (Inr (Dataset (to_dict_records df) (columns_of df) (length rows) (dtypes_of df)),
              snd (create_dataset L store \<lparr>name = nm, data = rows\<rparr>))"
    using assms(1) by (simp add: get_dataset_route_def get_dataset_def create_dataset_def n)
  with rows show ?thesis by blast
qed

theorem round_trip_witness:
  "\<exists>out.
     get_dataset_route
       (snd (create_dataset example_library Map.empty
          \<lparr>name = ''t'',
           data = [[(''a'', PInt 1), (''b'', PStr ''x'')], [(''b'', PNone), (''a'', PInt 2)]]\<rparr>))
       ''t'' (Some 2) =
       (Inr (Dataset out [''a'', ''b''] 2 [(''a'', ''int64''), (''b'', ''object'')]),
        snd (create_dataset example_library Map.empty
          \<lparr>name = ''t'',
           data = [[(''a'', PInt 1), (''b'', PStr ''x'')], [(''b'', PNone), (''a'', PInt 2)]]\<rparr>))
     \<and> list_all2 dict_eq out
          [[(''a'', PInt 1), (''b'', PStr ''x'')], [(''b'', PNone), (''a'', PInt 2)]]"
proof -
  let ?rows = "[[(''a'', PInt 1), (''b'', PStr ''x'')], [(''b'', PNone), (''a'', PInt 2)]]"
  let ?df = "\<lparr>nrows = 2,
      cols = [(''a'', \<lparr>dtype = Int64, cells = [PInt 1, PInt 2]\<rparr>),
              (''b'', \<lparr>dtype = Object, cells = [PStr ''x'', PNone]\<rparr>)]\<rparr>"
  have h1: "pd_DataFrame example_library ?rows = Inr ?df"
    by (simp add: pd_DataFrame_def example_library_def from_records_two_rows)
  have h2: "\<forall>row \<in> set ?rows. \<forall>row' \<in> set ?rows. set (map fst row) = set (map fst row')"
    by auto
  have h3: "\<forall>row \<in> set ?rows. row \<noteq> []"
    by simp
  have h4: "\<forall>row \<in> set ?rows. \<forall>k \<in> set (map fst row).
      safe_column (map (\<lambda>r. lookup r k) ?rows)"
    by (simp add: safe_column_def lookup_def)
  from round_trip [OF h1 h2 h3 h4, of Map.empty "''t''"] show ?thesis
    by (simp add: columns_of_def dtypes_of_def numeral_2_eq_2)
qed

text \<open>
  Why a NaN cell is excluded: a returned NaN is not equal to an uploaded NaN, so a
  record with a NaN cell never equals the record that comes back.
\<close>

lemma nan_record_differs: "\<not> dict_eq [(k, PFloat NaN)] [(k, PFloat NaN)]"
  by (simp add: dict_eq_def)

end
